theory Spec2Isabelle
  imports Main
begin

section \<open>Text\<close>

text \<open>
  A Python \<open>str\<close> is modelled as a \<open>string\<close> in which every \<open>char\<close> stands for one
  code point, so the model covers the texts whose code points lie below 256. Among these
  code points the class \<open>\d\<close> of \<open>re\<close> holds the ten ASCII digits only, and
  \<open>str.strip()\<close> removes the code points listed in \<open>is_space\<close>.
\<close>

definition is_digit :: "char \<Rightarrow> bool" where
  "is_digit c \<longleftrightarrow> c \<in> set ''0123456789''"

definition is_space :: "char \<Rightarrow> bool" where
  "is_space c \<longleftrightarrow>
     c \<in> set [CHR 0x09, CHR 0x0A, CHR 0x0B, CHR 0x0C, CHR 0x0D, CHR 0x1C, CHR 0x1D,
              CHR 0x1E, CHR 0x1F, CHR 0x20, CHR 0x85, CHR 0xA0]"

definition py_strip :: "string \<Rightarrow> string" where
  "py_strip s = rev (dropWhile is_space (rev (dropWhile is_space s)))"

section \<open>The regular expressions of the scraper\<close>

text \<open>
  \<open>re.search(p, s)\<close> tries the pattern at every start position of \<open>s\<close> from the left,
  the end of the text included, and returns the first match. The pattern is given by its
  anchored matcher, which returns the text of group 1.
\<close>

fun re_search :: "(string \<Rightarrow> string option) \<Rightarrow> string \<Rightarrow> string option" where
  "re_search m [] = m []"
| "re_search m (c # cs) = (case m (c # cs) of Some g \<Rightarrow> Some g | None \<Rightarrow> re_search m cs)"

text \<open>
  A greedy \<open>cls+\<close> followed by the rest of the pattern \<open>cont\<close>: the longest run of the
  class is tried first, then every shorter one down to one character.
\<close>

fun backtrack :: "(string \<Rightarrow> bool) \<Rightarrow> string \<Rightarrow> nat \<Rightarrow> string option" where
  "backtrack cont s 0 = None"
| "backtrack cont s (Suc k) =
     (if cont (drop (Suc k) s) then Some (take (Suc k) s) else backtrack cont s k)"

definition greedy_plus :: "(char \<Rightarrow> bool) \<Rightarrow> (string \<Rightarrow> bool) \<Rightarrow> string \<Rightarrow> string option" where
  "greedy_plus cls cont s = backtrack cont s (length (takeWhile cls s))"

text \<open>\<open>$\<close> without \<open>re.MULTILINE\<close>: the end of the text, or just before a final newline.\<close>

definition at_dollar :: "string \<Rightarrow> bool" where
  "at_dollar r \<longleftrightarrow> r = [] \<or> r = [CHR 0x0A]"

definition at_any :: "string \<Rightarrow> bool" where
  "at_any r \<longleftrightarrow> True"

text \<open>\<open>(\d{4})\<close>\<close>

definition match_year :: "string \<Rightarrow> string option" where
  "match_year s =
     (if 4 \<le> length s \<and> list_all is_digit (take 4 s) then Some (take 4 s) else None)"

text \<open>\<open>- ([^-]+)$\<close>\<close>

fun match_after_dash :: "string \<Rightarrow> string option" where
  "match_after_dash (a # b # r) =
     (if a = CHR ''-'' \<and> b = CHR '' '' then greedy_plus (\<lambda>c. c \<noteq> CHR ''-'') at_dollar r
      else None)"
| "match_after_dash _ = None"

text \<open>\<open>, ([^,]+)$\<close>\<close>

fun match_after_comma :: "string \<Rightarrow> string option" where
  "match_after_comma (a # b # r) =
     (if a = CHR '','' \<and> b = CHR '' '' then greedy_plus (\<lambda>c. c \<noteq> CHR '','') at_dollar r
      else None)"
| "match_after_comma _ = None"

text \<open>\<open>in ([^,]+)\<close>\<close>

fun match_after_in :: "string \<Rightarrow> string option" where
  "match_after_in (a # b # c # r) =
     (if a = CHR ''i'' \<and> b = CHR ''n'' \<and> c = CHR '' ''
      then greedy_plus (\<lambda>c. c \<noteq> CHR '','') at_any r else None)"
| "match_after_in _ = None"

text \<open>
  \<open>next((m.group(1) for m in [...] if m), None)\<close>: group 1 of the first search that
  matched. A match object is always true.
\<close>

fun first_match :: "string option list \<Rightarrow> string option" where
  "first_match [] = None"
| "first_match (None # ms) = first_match ms"
| "first_match (Some g # ms) = Some g"

text \<open>Lines 180 to 183 of \<open>search_google_scholar\<close>.\<close>

definition derive_year :: "string \<Rightarrow> string \<Rightarrow> string \<Rightarrow> string" where
  "derive_year authors title abstract =
     (case first_match (map (re_search match_year) [authors, title, abstract]) of
        None \<Rightarrow> ''''
      | Some year_match \<Rightarrow> if year_match \<noteq> [] then year_match else '''')"

text \<open>Lines 185 to 188 of \<open>search_google_scholar\<close>.\<close>

definition derive_journal :: "string \<Rightarrow> string" where
  "derive_journal authors =
     (case first_match [re_search match_after_dash authors,
                        re_search match_after_comma authors,
                        re_search match_after_in authors] of
        None \<Rightarrow> ''''
      | Some journal_match \<Rightarrow> if journal_match \<noteq> [] then py_strip journal_match else '''')"

section \<open>Reference readings of the texts\<close>

text \<open>
  The maximal runs of digits of a text, from left to right, and the year as the
  specification words it: the first run of exactly four digits, looked for in the author
  text, then the title, then the abstract.
\<close>

function digit_runs :: "string \<Rightarrow> string list" where
  "digit_runs [] = []"
| "digit_runs (c # cs) =
     (if is_digit c then takeWhile is_digit (c # cs) # digit_runs (dropWhile is_digit cs)
      else digit_runs cs)"
  by pat_completeness auto
termination
  by (relation "measure length") (auto simp: less_Suc_eq_le length_dropWhile_le)

definition first_run_of_four :: "string \<Rightarrow> string option" where
  "first_run_of_four s = find (\<lambda>r. length r = 4) (digit_runs s)"

definition exact_run_year :: "string \<Rightarrow> string \<Rightarrow> string \<Rightarrow> string" where
  "exact_run_year authors title abstract =
     (case first_match (map first_run_of_four [authors, title, abstract]) of
        None \<Rightarrow> '''' | Some y \<Rightarrow> y)"

text \<open>
  Four consecutive digits stand at position \<open>k\<close> of a text; the four digits at the
  leftmost such position, whatever follows them.
\<close>

definition four_digits_at :: "string \<Rightarrow> nat \<Rightarrow> bool" where
  "four_digits_at s k \<longleftrightarrow> k + 4 \<le> length s \<and> list_all is_digit (take 4 (drop k s))"

definition first_four_digits :: "string \<Rightarrow> string option" where
  "first_four_digits s =
     map_option (\<lambda>k. take 4 (drop k s)) (find (four_digits_at s) [0..<Suc (length s)])"

text \<open>
  The text after the last occurrence of a character, when the character occurs; the text
  after the last occurrence of the character followed by a space, when that text is not
  empty.
\<close>

definition suffix_after_last :: "char \<Rightarrow> string \<Rightarrow> string option" where
  "suffix_after_last c s =
     (if c \<in> set s then Some (rev (takeWhile (\<lambda>x. x \<noteq> c) (rev s))) else None)"

definition tail_after :: "char \<Rightarrow> string \<Rightarrow> string option" where
  "tail_after c s =
     (case suffix_after_last c s of
        Some (b # g) \<Rightarrow> if b = CHR '' '' \<and> g \<noteq> [] then Some g else None
      | _ \<Rightarrow> None)"

text \<open>
  The letters "in" and a space stand at position \<open>k\<close> of a text and a character other
  than a comma follows them; the text from the leftmost such position up to the next comma.
\<close>

definition in_at :: "string \<Rightarrow> nat \<Rightarrow> bool" where
  "in_at s k \<longleftrightarrow>
     take 3 (drop k s) = ''in '' \<and> k + 3 < length s \<and> s ! (k + 3) \<noteq> CHR '',''"

definition text_after_in :: "string \<Rightarrow> string option" where
  "text_after_in s =
     map_option (\<lambda>k. takeWhile (\<lambda>c. c \<noteq> CHR '','') (drop (k + 3) s))
       (find (in_at s) [0..<Suc (length s)])"

text \<open>A text occurs in another one.\<close>

definition occurs_in :: "string \<Rightarrow> string \<Rightarrow> bool" where
  "occurs_in p s \<longleftrightarrow> list_ex (\<lambda>k. take (length p) (drop k s) = p) [0..<Suc (length s)]"

section \<open>Values and exceptions\<close>

text \<open>
  What \<open>res.json()\<close> returns: the values of JSON as Python objects. An object is the list
  of its items in insertion order, with distinct keys. A float is held as its \<open>repr\<close>
  (\<open>0.0\<close>, \<open>72.5\<close>, \<open>1e+16\<close>, \<open>nan\<close>), which determines it; the code never computes with
  one, it only tests and prints it.
\<close>

datatype json =
    JNull
  | JBool bool
  | JInt int
  | JFloat string
  | JStr string
  | JList "json list"
  | JDict "(string \<times> json) list"

text \<open>
  The exceptions that the code and its libraries raise on the paths modelled here; all of
  them derive from \<open>Exception\<close>. \<open>HTTPError\<close> stands for whatever the HTTP client raises
  and \<open>JSONDecodeError\<close> for a body that is not JSON.
\<close>

datatype exn =
    KeyError
  | IndexError
  | TypeError
  | AttributeError
  | JSONDecodeError
  | HTTPError string

definition bnd :: "exn + 'a \<Rightarrow> ('a \<Rightarrow> exn + 'b) \<Rightarrow> exn + 'b" where
  "bnd m f = (case m of Inl e \<Rightarrow> Inl e | Inr v \<Rightarrow> f v)"

subsection \<open>Printing\<close>

definition digit_char :: "nat \<Rightarrow> char" where
  "digit_char d = ''0123456789'' ! (d mod 10)"

fun show_nat :: "nat \<Rightarrow> string" where
  "show_nat n = (if n < 10 then [digit_char n] else show_nat (n div 10) @ [digit_char n])"

declare show_nat.simps [simp del]

definition show_int :: "int \<Rightarrow> string" where
  "show_int i = (if i < 0 then CHR ''-'' # show_nat (nat (- i)) else show_nat (nat i))"

definition hex_char :: "nat \<Rightarrow> char" where
  "hex_char d = ''0123456789abcdef'' ! (d mod 16)"

definition is_printable :: "char \<Rightarrow> bool" where
  "is_printable c \<longleftrightarrow>
     (let n = (of_char c :: nat)
      in (32 \<le> n \<and> n \<le> 126) \<or> (161 \<le> n \<and> n \<noteq> 173))"

text \<open>\<open>repr\<close> of a \<open>str\<close>, for code points below 256.\<close>

definition repr_char :: "char \<Rightarrow> char \<Rightarrow> string" where
  "repr_char q c =
     (if c = CHR 0x5C then [CHR 0x5C, CHR 0x5C]
      else if c = q then [CHR 0x5C, q]
      else if c = CHR 0x0A then [CHR 0x5C, CHR ''n'']
      else if c = CHR 0x0D then [CHR 0x5C, CHR ''r'']
      else if c = CHR 0x09 then [CHR 0x5C, CHR ''t'']
      else if is_printable c then [c]
      else [CHR 0x5C, CHR ''x'', hex_char (of_char c div 16), hex_char (of_char c)])"

definition repr_str :: "string \<Rightarrow> string" where
  "repr_str s =
     (let q = (if CHR 0x27 \<in> set s \<and> CHR 0x22 \<notin> set s then CHR 0x22 else CHR 0x27)
      in [q] @ concat (map (repr_char q) s) @ [q])"

fun join :: "string \<Rightarrow> string list \<Rightarrow> string" where
  "join sep [] = []"
| "join sep [x] = x"
| "join sep (x # y # ys) = x @ sep @ join sep (y # ys)"

fun py_repr :: "json \<Rightarrow> string" where
  "py_repr JNull = ''None''"
| "py_repr (JBool b) = (if b then ''True'' else ''False'')"
| "py_repr (JInt i) = show_int i"
| "py_repr (JFloat r) = r"
| "py_repr (JStr s) = repr_str s"
| "py_repr (JList xs) = ''['' @ join '', '' (map py_repr xs) @ '']''"
| "py_repr (JDict kvs) =
     ''{'' @ join '', '' (map (\<lambda>(k, v). repr_str k @ '': '' @ py_repr v) kvs) @ ''}''"

text \<open>A value inside an f-string: \<open>format(v, "")\<close>, that is \<open>str(v)\<close>.\<close>

definition py_str :: "json \<Rightarrow> string" where
  "py_str v = (case v of JStr s \<Rightarrow> s | _ \<Rightarrow> py_repr v)"

subsection \<open>Operations on values\<close>

fun py_truthy :: "json \<Rightarrow> bool" where
  "py_truthy JNull = False"
| "py_truthy (JBool b) = b"
| "py_truthy (JInt i) = (i \<noteq> 0)"
| "py_truthy (JFloat r) = (r \<noteq> ''0.0'' \<and> r \<noteq> ''-0.0'')"
| "py_truthy (JStr s) = (s \<noteq> [])"
| "py_truthy (JList xs) = (xs \<noteq> [])"
| "py_truthy (JDict kvs) = (kvs \<noteq> [])"

text \<open>\<open>v[key]\<close> for a \<open>str\<close> key.\<close>

fun py_getitem :: "json \<Rightarrow> string \<Rightarrow> exn + json" where
  "py_getitem (JDict kvs) key = (case map_of kvs key of Some v \<Rightarrow> Inr v | None \<Rightarrow> Inl KeyError)"
| "py_getitem _ key = Inl TypeError"

text \<open>\<open>v.get(key, default)\<close>: only a \<open>dict\<close> has the method.\<close>

fun py_get :: "json \<Rightarrow> string \<Rightarrow> json \<Rightarrow> exn + json" where
  "py_get (JDict kvs) key dflt = (case map_of kvs key of Some v \<Rightarrow> Inr v | None \<Rightarrow> Inr dflt)"
| "py_get _ key dflt = Inl AttributeError"

text \<open>\<open>v[0]\<close>. The keys of a \<open>dict\<close> that comes from JSON are strings, so \<open>0\<close> is none.\<close>

fun py_first :: "json \<Rightarrow> exn + json" where
  "py_first (JList []) = Inl IndexError"
| "py_first (JList (x # xs)) = Inr x"
| "py_first (JStr []) = Inl IndexError"
| "py_first (JStr (c # cs)) = Inr (JStr [c])"
| "py_first (JDict kvs) = Inl KeyError"
| "py_first _ = Inl TypeError"

text \<open>\<open>xs[:n]\<close> of Python: a negative \<open>n\<close> counts from the end.\<close>

definition slice_to :: "int \<Rightarrow> 'a list \<Rightarrow> 'a list" where
  "slice_to n xs = (if n < 0 then take (nat (int (length xs) + n)) xs else take (nat n) xs)"

text \<open>
  \<open>v[:n]\<close>. A \<open>dict\<close> raises \<open>TypeError\<close> (a slice is not hashable) up to Python 3.11 and
  \<open>KeyError\<close> from 3.12 on; the model has the former.
\<close>

fun py_slice_to :: "json \<Rightarrow> int \<Rightarrow> exn + json" where
  "py_slice_to (JList xs) n = Inr (JList (slice_to n xs))"
| "py_slice_to (JStr s) n = Inr (JStr (slice_to n s))"
| "py_slice_to _ n = Inl TypeError"

fun py_len :: "json \<Rightarrow> exn + nat" where
  "py_len (JList xs) = Inr (length xs)"
| "py_len (JStr s) = Inr (length s)"
| "py_len (JDict kvs) = Inr (length kvs)"
| "py_len _ = Inl TypeError"

text \<open>The items that a \<open>for\<close> loop, \<open>enumerate\<close> or \<open>join\<close> draws from a value.\<close>

fun py_iter :: "json \<Rightarrow> exn + json list" where
  "py_iter (JList xs) = Inr xs"
| "py_iter (JStr s) = Inr (map (\<lambda>c. JStr [c]) s)"
| "py_iter (JDict kvs) = Inr (map (\<lambda>(k, v). JStr k) kvs)"
| "py_iter _ = Inl TypeError"

text \<open>\<open>sep.join(v)\<close>: every item must be a \<open>str\<close>.\<close>

fun strs_of :: "json list \<Rightarrow> exn + string list" where
  "strs_of [] = Inr []"
| "strs_of (JStr s # vs) = bnd (strs_of vs) (\<lambda>ss. Inr (s # ss))"
| "strs_of (_ # vs) = Inl TypeError"

definition py_join :: "string \<Rightarrow> json \<Rightarrow> exn + string" where
  "py_join sep v = bnd (py_iter v) (\<lambda>items. bnd (strs_of items) (\<lambda>ss. Inr (join sep ss)))"

section \<open>The upstream services\<close>

text \<open>
  A GET request as the code builds it, and what comes back: the body as text and what
  \<open>res.json()\<close> makes of it (a value, or the decoder's exception). The upstream is any
  function from requests to a response or to the exception that the HTTP client raises.
  Every extractor returns the requests it issued, in order, beside its result.
\<close>

record request =
  url :: string
  params :: "(string \<times> string) list"
  headers :: "(string \<times> string) list"

record response =
  resp_text :: string
  resp_json :: "exn + json"

type_synonym http = "request \<Rightarrow> exn + response"

definition FDA_API_BASE :: string where "FDA_API_BASE = ''https://api.fda.gov''"
definition WHO_API_BASE :: string where "WHO_API_BASE = ''https://ghoapi.azureedge.net/api''"
definition RXNAV_API_BASE :: string where "RXNAV_API_BASE = ''https://rxnav.nlm.nih.gov/REST''"
definition PUBMED_API_BASE :: string where
  "PUBMED_API_BASE = ''https://eutils.ncbi.nlm.nih.gov/entrez/eutils''"
definition GOOGLE_SCHOLAR_API_BASE :: string where
  "GOOGLE_SCHOLAR_API_BASE = ''https://scholar.google.com/scholar''"
definition USER_AGENT :: string where "USER_AGENT = ''medical-mcp/1.0''"

definition NL :: string where "NL = [CHR 0x0A]"
definition SQ :: string where "SQ = [CHR 0x27]"

text \<open>\<open>try: ... except Exception as e: return handler(e)\<close>\<close>

definition py_except :: "exn + 'a \<Rightarrow> (exn \<Rightarrow> 'a) \<Rightarrow> exn + 'a" where
  "py_except r handler = (case r of Inl e \<Rightarrow> Inr (handler e) | Inr v \<Rightarrow> Inr v)"

section \<open>Drug search\<close>

definition search_drugs :: "http \<Rightarrow> string \<Rightarrow> int \<Rightarrow> request list \<times> (exn + json)" where
  "search_drugs http query limit =
     (let req = \<lparr>url = FDA_API_BASE @ ''/drug/label.json'',
                 params = [(''search'', ''openfda.brand_name:'' @ query),
                           (''limit'', show_int limit)],
                 headers = [(''User-Agent'', USER_AGENT)]\<rparr>
      in ([req],
          bnd (http req) (\<lambda>res.
          bnd (resp_json res) (\<lambda>body.
          py_get body ''results'' (JList [])))))"

text \<open>\<open>drug['openfda'].get(key, [placeholder])[0]\<close>, printed.\<close>

definition openfda_field :: "json \<Rightarrow> string \<Rightarrow> string \<Rightarrow> exn + string" where
  "openfda_field drug key placeholder =
     bnd (py_getitem drug ''openfda'') (\<lambda>openfda.
     bnd (py_get openfda key (JList [JStr placeholder])) (\<lambda>names.
     bnd (py_first names) (\<lambda>name. Inr (py_str name))))"

text \<open>\<open>f"{v[:n]}{'...' if len(v) > n else ''}"\<close>\<close>

definition truncated :: "json \<Rightarrow> nat \<Rightarrow> exn + string" where
  "truncated v n =
     bnd (py_slice_to v (int n)) (\<lambda>head.
     bnd (py_len v) (\<lambda>len.
     Inr (py_str head @ (if len > n then ''...'' else ''''))))"

text \<open>The text that one pass of the loop of \<open>search_drugs_tool\<close> adds (lines 265 to 274).\<close>

definition drug_entry :: "nat \<Rightarrow> json \<Rightarrow> exn + string" where
  "drug_entry index drug =
     bnd (openfda_field drug ''brand_name'' ''Unknown Brand'') (\<lambda>brand.
     bnd (openfda_field drug ''generic_name'' ''Not specified'') (\<lambda>generic.
     bnd (openfda_field drug ''manufacturer_name'' ''Not specified'') (\<lambda>manufacturer.
     bnd (openfda_field drug ''route'' ''Not specified'') (\<lambda>route.
     bnd (openfda_field drug ''dosage_form'' ''Not specified'') (\<lambda>form.
     bnd (py_get drug ''purpose'' JNull) (\<lambda>p.
     bnd (if py_truthy p
          then bnd (py_getitem drug ''purpose'') (\<lambda>purpose.
               if py_truthy purpose
               then bnd (py_first purpose) (\<lambda>first.
                    bnd (truncated first 200) (\<lambda>t. Inr (''   Purpose: '' @ t @ NL)))
               else Inr '''')
          else Inr '''') (\<lambda>purpose_line.
     bnd (py_getitem drug ''effective_time'') (\<lambda>time.
     Inr (show_nat index @ ''. **'' @ brand @ ''**'' @ NL
          @ ''   Generic Name: '' @ generic @ NL
          @ ''   Manufacturer: '' @ manufacturer @ NL
          @ ''   Route: '' @ route @ NL
          @ ''   Dosage Form: '' @ form @ NL
          @ purpose_line
          @ ''   Last Updated: '' @ py_str time @ NL @ NL)))))))))"

text \<open>
  \<open>for index, item in enumerate(items, start=index): result += entry(index, item)\<close>,
  left at the first exception.
\<close>

fun enumerate_loop ::
  "(nat \<Rightarrow> json \<Rightarrow> exn + string) \<Rightarrow> string \<Rightarrow> nat \<Rightarrow> json list \<Rightarrow> exn + string" where
  "enumerate_loop entry result index [] = Inr result"
| "enumerate_loop entry result index (item # items) =
     bnd (entry index item) (\<lambda>text. enumerate_loop entry (result @ text) (Suc index) items)"

definition search_drugs_body :: "http \<Rightarrow> string \<Rightarrow> int \<Rightarrow> request list \<times> (exn + string)" where
  "search_drugs_body http query limit =
     (case search_drugs http query limit of (sent, r) \<Rightarrow>
        (sent,
         bnd r (\<lambda>drugs.
         if \<not> py_truthy drugs
         then Inr (''No drugs found matching '' @ SQ @ query @ SQ
                   @ ''. Try a different search term.'')
         else bnd (py_len drugs) (\<lambda>n.
              bnd (py_iter drugs) (\<lambda>items.
              enumerate_loop drug_entry
                (''**Drug Search Results for '' @ SQ @ query @ SQ @ ''**'' @ NL @ NL
                 @ ''Found '' @ show_nat n @ '' drug(s)'' @ NL @ NL)
                1 items)))))"

text \<open>
  The tool, with its \<open>try\<close> and \<open>except\<close>. \<open>str_of\<close> stands for \<open>str(e)\<close>, the wording
  of which is the interpreter's and the libraries'.
\<close>

definition search_drugs_tool ::
  "(exn \<Rightarrow> string) \<Rightarrow> http \<Rightarrow> string \<Rightarrow> int \<Rightarrow> request list \<times> (exn + string)" where
  "search_drugs_tool str_of http query limit =
     (case search_drugs_body http query limit of (sent, r) \<Rightarrow>
        (sent, py_except r (\<lambda>e. ''Error searching drugs: '' @ str_of e)))"

section \<open>Health statistics\<close>

definition get_health_indicators ::
  "http \<Rightarrow> string \<Rightarrow> string option \<Rightarrow> request list \<times> (exn + json)" where
  "get_health_indicators http indicator_name country =
     (let filter_query =
            ''IndicatorName eq '' @ SQ @ indicator_name @ SQ
            @ (case country of
                 Some c \<Rightarrow> if c \<noteq> [] then '' and SpatialDim eq '' @ SQ @ c @ SQ else ''''
               | None \<Rightarrow> '''');
          req = \<lparr>url = WHO_API_BASE @ ''/Indicator'',
                 params = [(''$filter'', filter_query), (''$format'', ''json'')],
                 headers = [(''User-Agent'', USER_AGENT)]\<rparr>
      in ([req],
          bnd (http req) (\<lambda>res.
          bnd (resp_json res) (\<lambda>body.
          py_get body ''value'' (JList [])))))"

text \<open>The text that one pass of the loop adds (lines 353 to 358).\<close>

definition indicator_entry :: "nat \<Rightarrow> json \<Rightarrow> exn + string" where
  "indicator_entry index ind =
     bnd (py_getitem ind ''SpatialDim'') (\<lambda>spatial.
     bnd (py_getitem ind ''TimeDim'') (\<lambda>time.
     bnd (py_getitem ind ''Value'') (\<lambda>val.
     bnd (py_getitem ind ''Comments'') (\<lambda>comments.
     bnd (py_getitem ind ''NumericValue'') (\<lambda>numeric.
     bnd (py_get ind ''Low'' JNull) (\<lambda>low.
     bnd (if py_truthy low then py_get ind ''High'' JNull else Inr low) (\<lambda>both.
     bnd (if py_truthy both
          then bnd (py_getitem ind ''Low'') (\<lambda>l.
               bnd (py_getitem ind ''High'') (\<lambda>h.
               Inr (''   Range: '' @ py_str l @ '' - '' @ py_str h @ NL)))
          else Inr '''') (\<lambda>range_line.
     bnd (py_getitem ind ''Date'') (\<lambda>date.
     Inr (show_nat index @ ''. **'' @ py_str spatial @ ''** ('' @ py_str time @ '')'' @ NL
          @ ''   Value: '' @ py_str val @ '' ''
          @ py_str (if py_truthy comments then comments else JStr '''') @ NL
          @ ''   Numeric Value: '' @ py_str numeric @ NL
          @ range_line
          @ ''   Date: '' @ py_str date @ NL @ NL))))))))))"

definition country_given :: "string option \<Rightarrow> string option" where
  "country_given country = (case country of Some c \<Rightarrow> if c \<noteq> [] then Some c else None | None \<Rightarrow> None)"

definition get_health_statistics_body ::
  "http \<Rightarrow> string \<Rightarrow> string option \<Rightarrow> int \<Rightarrow> request list \<times> (exn + string)" where
  "get_health_statistics_body http indicator country limit =
     (case get_health_indicators http indicator country of (sent, r) \<Rightarrow>
        (sent,
         bnd r (\<lambda>indicators.
         if \<not> py_truthy indicators
         then Inr (''No health indicators found for '' @ SQ @ indicator @ SQ
                   @ (case country_given country of Some c \<Rightarrow> '' in '' @ c | None \<Rightarrow> '''')
                   @ ''. Try a different search term.'')
         else bnd (py_len indicators) (\<lambda>n.
              bnd (py_slice_to indicators limit) (\<lambda>shown.
              bnd (py_iter shown) (\<lambda>items.
              enumerate_loop indicator_entry
                (''**Health Statistics: '' @ indicator @ ''**'' @ NL @ NL
                 @ (case country_given country of
                      Some c \<Rightarrow> ''Country: '' @ c @ NL | None \<Rightarrow> '''')
                 @ ''Found '' @ show_nat n @ '' data points'' @ NL @ NL)
                1 items))))))"

definition get_health_statistics_tool ::
  "(exn \<Rightarrow> string) \<Rightarrow> http \<Rightarrow> string \<Rightarrow> string option \<Rightarrow> int
     \<Rightarrow> request list \<times> (exn + string)" where
  "get_health_statistics_tool str_of http indicator country limit =
     (case get_health_statistics_body http indicator country limit of (sent, r) \<Rightarrow>
        (sent, py_except r (\<lambda>e. ''Error fetching health statistics: '' @ str_of e)))"

section \<open>Verified properties\<close>

subsection \<open>Searching a text by position\<close>

lemma find_map_comp: "find P (map f xs) = map_option f (find (P \<circ> f) xs)"
  by (induction xs) auto

lemma upt_Suc_shift: "[0..<Suc (Suc n)] = 0 # map Suc [0..<Suc n]"
  by (metis map_Suc_upt upt_conv_Cons zero_less_Suc)

lemma four_digits_at_Cons: "four_digits_at (c # cs) (Suc k) = four_digits_at cs k"
  by (auto simp: four_digits_at_def)

lemma four_digits_at_0: "four_digits_at s 0 \<longleftrightarrow> match_year s \<noteq> None"
  by (simp add: four_digits_at_def match_year_def)

lemma match_year_val: "match_year s = Some y \<Longrightarrow> y = take 4 s"
  by (simp add: match_year_def split: if_splits)

lemma search_year_first: "re_search match_year s = first_four_digits s"
proof (induction s)
  case Nil
  show ?case by (simp add: first_four_digits_def match_year_def four_digits_at_def)
next
  case (Cons c cs)
  show ?case
  proof (cases "match_year (c # cs)")
    case (Some y)
    then have "four_digits_at (c # cs) 0" by (simp add: four_digits_at_0)
    then show ?thesis using Some match_year_val[OF Some]
      by (simp add: first_four_digits_def upt_Suc_shift del: upt_Suc)
  next
    case None
    then have n0: "\<not> four_digits_at (c # cs) 0" by (simp add: four_digits_at_0)
    have "first_four_digits (c # cs) = first_four_digits cs"
      using n0
      by (simp add: first_four_digits_def upt_Suc_shift find_map_comp comp_def
          four_digits_at_Cons option.map_comp del: upt_Suc)
    then show ?thesis using None Cons.IH by simp
  qed
qed

lemma first_four_digits_nonempty: "first_four_digits s = Some y \<Longrightarrow> y \<noteq> []"
  by (auto simp: first_four_digits_def four_digits_at_def find_Some_iff)

subsection \<open>The derived year\<close>

text \<open>
  C3, as the code has it. The year is the four digits at the leftmost position of the
  author text where four consecutive digits stand; when the author text has no such
  position the title is read the same way, then the abstract; when none of the three has
  one the year is the empty string. The four digits are taken whether or not further
  digits follow them. For the author text "Smith J, 2020", the title "Review" and the
  abstract "Published 2019" the year is "2020".
\<close>

theorem derive_year_first_four_digits:
  "derive_year authors title abstract =
     (case first_four_digits authors of Some y \<Rightarrow> y
      | None \<Rightarrow> (case first_four_digits title of Some y \<Rightarrow> y
         | None \<Rightarrow> (case first_four_digits abstract of Some y \<Rightarrow> y | None \<Rightarrow> '''')))
   \<and> derive_year ''Smith J, 2020'' ''Review'' ''Published 2019'' = ''2020''"
proof
  show "derive_year authors title abstract =
     (case first_four_digits authors of Some y \<Rightarrow> y
      | None \<Rightarrow> (case first_four_digits title of Some y \<Rightarrow> y
         | None \<Rightarrow> (case first_four_digits abstract of Some y \<Rightarrow> y | None \<Rightarrow> '''')))"
    by (auto simp: derive_year_def search_year_first split: option.splits
        dest: first_four_digits_nonempty)
  show "derive_year ''Smith J, 2020'' ''Review'' ''Published 2019'' = ''2020''"
    by code_simp
qed

text \<open>
  C3 as the specification words it fails on a run of five digits: the author text
  "Vol 12345" has one run of digits, of length five, so no run of exactly four digits,
  and the first run of exactly four digits is the "2019" of the abstract; the code
  takes "1234".
\<close>

theorem derive_year_longer_run:
  "derive_year ''Vol 12345'' ''Review'' ''Published 2019'' = ''1234'' \<and>
   digit_runs ''Vol 12345'' = [''12345''] \<and>
   exact_run_year ''Vol 12345'' ''Review'' ''Published 2019'' = ''2019''"
  by code_simp

subsection \<open>The journal patterns by position\<close>

lemma backtrack_none:
  "(\<And>j. 0 < j \<Longrightarrow> j \<le> k \<Longrightarrow> \<not> cont (drop j s)) \<Longrightarrow> backtrack cont s k = None"
  by (induction k) auto

lemma takeWhile_all_length: "length (takeWhile P xs) = length xs \<longleftrightarrow> (\<forall>x\<in>set xs. P x)"
  by (induction xs) auto

lemma drop_keeps_member:
  assumes "j \<le> length (takeWhile (\<lambda>x. x \<noteq> c) r)" "c \<in> set r"
  shows "c \<in> set (drop j r)"
proof -
  have "r = takeWhile (\<lambda>x. x \<noteq> c) r @ dropWhile (\<lambda>x. x \<noteq> c) r" by simp
  moreover have "dropWhile (\<lambda>x. x \<noteq> c) r \<noteq> []" using assms(2) by (simp add: dropWhile_eq_Nil_conv)
  then have "hd (dropWhile (\<lambda>x. x \<noteq> c) r) = c" using hd_dropWhile[of "\<lambda>x. x \<noteq> c" r] by auto
  ultimately show ?thesis using assms(1)
    by (metis (no_types, lifting) \<open>dropWhile (\<lambda>x. x \<noteq> c) r \<noteq> []\<close> append_eq_conv_conj drop_append
        diff_is_0_eq drop_0 list.set_sel(1) Un_iff set_append)
qed

lemma greedy_plus_dollar:
  assumes "c \<noteq> CHR 0x0A"
  shows "greedy_plus (\<lambda>x. x \<noteq> c) at_dollar r = (if r \<noteq> [] \<and> c \<notin> set r then Some r else None)"
proof (cases "c \<in> set r")
  case True
  have "backtrack at_dollar r (length (takeWhile (\<lambda>x. x \<noteq> c) r)) = None"
  proof (rule backtrack_none)
    fix j assume "0 < j" and j: "j \<le> length (takeWhile (\<lambda>x. x \<noteq> c) r)"
    have "c \<in> set (drop j r)" by (rule drop_keeps_member[OF j True])
    then show "\<not> at_dollar (drop j r)" using assms by (auto simp: at_dollar_def)
  qed
  then show ?thesis using True by (simp add: greedy_plus_def)
next
  case False
  then have len: "length (takeWhile (\<lambda>x. x \<noteq> c) r) = length r"
    by (auto simp: takeWhile_all_length)
  show ?thesis
  proof (cases r)
    case Nil
    then show ?thesis by (simp add: greedy_plus_def)
  next
    case (Cons a as)
    then obtain k where k: "length r = Suc k" by simp
    have "backtrack at_dollar r (Suc k) = Some r"
      using k by (simp add: at_dollar_def)
    then show ?thesis using False Cons len k by (simp add: greedy_plus_def)
  qed
qed

lemma greedy_plus_any:
  "greedy_plus cls at_any r = (if takeWhile cls r \<noteq> [] then Some (takeWhile cls r) else None)"
proof (cases "length (takeWhile cls r)")
  case 0
  then show ?thesis by (simp add: greedy_plus_def)
next
  case (Suc k)
  have "take (Suc k) r = takeWhile cls r"
    using Suc takeWhile_eq_take[of cls r] by simp
  then show ?thesis using Suc by (auto simp: greedy_plus_def at_any_def)
qed

lemma suffix_after_last_Cons:
  "suffix_after_last c (x # xs) =
     (if c \<in> set xs then suffix_after_last c xs else if x = c then Some xs else None)"
proof -
  have a: "c \<in> set xs \<Longrightarrow> takeWhile (\<lambda>x. x \<noteq> c) (rev xs @ [x]) = takeWhile (\<lambda>x. x \<noteq> c) (rev xs)"
    by (rule takeWhile_append1[of c]) auto
  have b: "c \<notin> set xs \<Longrightarrow> takeWhile (\<lambda>x. x \<noteq> c) (rev xs @ [c]) = rev xs"
    by (subst takeWhile_append2) auto
  show ?thesis using a b by (auto simp: suffix_after_last_def)
qed

lemma tail_after_Cons:
  "tail_after c (x # xs) =
     (if c \<in> set xs then tail_after c xs
      else if x = c then (case xs of b # g \<Rightarrow> if b = CHR '' '' \<and> g \<noteq> [] then Some g else None
                          | [] \<Rightarrow> None)
      else None)"
  by (simp add: tail_after_def suffix_after_last_Cons)

lemma tail_after_absent: "c \<notin> set s \<Longrightarrow> tail_after c s = None"
  by (simp add: tail_after_def suffix_after_last_def)

lemma search_after_dash: "re_search match_after_dash s = tail_after CHR ''-'' s"
proof (induction s)
  case Nil
  show ?case by (simp add: tail_after_def suffix_after_last_def)
next
  case (Cons x xs)
  show ?case
  proof (cases "x = CHR ''-'' \<and> (\<exists>r. xs = CHR '' '' # r \<and> r \<noteq> [] \<and> CHR ''-'' \<notin> set r)")
    case True
    then obtain r where r: "xs = CHR '' '' # r" "r \<noteq> []" "CHR ''-'' \<notin> set r" and x: "x = CHR ''-''"
      by auto
    show ?thesis using r x by (simp add: greedy_plus_dollar tail_after_Cons)
  next
    case False
    then have m: "match_after_dash (x # xs) = None"
      by (cases xs) (auto simp: greedy_plus_dollar)
    have "tail_after CHR ''-'' (x # xs) = tail_after CHR ''-'' xs"
      using False by (auto simp: tail_after_Cons tail_after_absent split: list.splits)
    then show ?thesis using m Cons.IH by simp
  qed
qed

lemma search_after_comma: "re_search match_after_comma s = tail_after CHR '','' s"
proof (induction s)
  case Nil
  show ?case by (simp add: tail_after_def suffix_after_last_def)
next
  case (Cons x xs)
  show ?case
  proof (cases "x = CHR '','' \<and> (\<exists>r. xs = CHR '' '' # r \<and> r \<noteq> [] \<and> CHR '','' \<notin> set r)")
    case True
    then obtain r where r: "xs = CHR '' '' # r" "r \<noteq> []" "CHR '','' \<notin> set r" and x: "x = CHR '',''"
      by auto
    show ?thesis using r x by (simp add: greedy_plus_dollar tail_after_Cons)
  next
    case False
    then have m: "match_after_comma (x # xs) = None"
      by (cases xs) (auto simp: greedy_plus_dollar)
    have "tail_after CHR '','' (x # xs) = tail_after CHR '','' xs"
      using False by (auto simp: tail_after_Cons tail_after_absent split: list.splits)
    then show ?thesis using m Cons.IH by simp
  qed
qed

lemma match_after_in_eq:
  "match_after_in s =
     (if in_at s 0 then Some (takeWhile (\<lambda>c. c \<noteq> CHR '','') (drop 3 s)) else None)"
proof (cases s)
  case Nil
  then show ?thesis by (simp add: in_at_def)
next
  case s1: (Cons a t1)
  show ?thesis
  proof (cases t1)
    case Nil
    then show ?thesis by (simp add: s1 in_at_def)
  next
    case s2: (Cons b t2)
    show ?thesis
    proof (cases t2)
      case Nil
      then show ?thesis by (simp add: s1 s2 in_at_def)
    next
      case s3: (Cons c r)
      show ?thesis
        by (cases r) (auto simp: s1 s2 s3 in_at_def greedy_plus_any)
    qed
  qed
qed

lemma in_at_Cons: "in_at (c # cs) (Suc k) = in_at cs k"
  by (auto simp: in_at_def add.commute)

lemma drop_plus_4: "drop (x + 4) (c # cs) = drop (x + 3) cs"
proof -
  have "x + 4 = Suc (x + 3)" by simp
  then show ?thesis by (simp only: drop_Suc_Cons)
qed

lemma search_after_in: "re_search match_after_in s = text_after_in s"
proof (induction s)
  case Nil
  show ?case by (simp add: text_after_in_def in_at_def)
next
  case (Cons c cs)
  show ?case
  proof (cases "in_at (c # cs) 0")
    case True
    then show ?thesis
      by (simp add: match_after_in_eq text_after_in_def upt_Suc_shift del: upt_Suc)
  next
    case False
    have "text_after_in (c # cs) = text_after_in cs"
      using False
      by (simp add: text_after_in_def upt_Suc_shift find_map_comp comp_def
          in_at_Cons option.map_comp add.commute drop_plus_4 del: upt_Suc)
    then show ?thesis using False Cons.IH by (simp add: match_after_in_eq)
  qed
qed

lemma tail_after_nonempty: "tail_after c s = Some j \<Longrightarrow> j \<noteq> []"
  by (auto simp: tail_after_def split: option.splits list.splits if_splits)

lemma text_after_in_nonempty: "text_after_in s = Some j \<Longrightarrow> j \<noteq> []"
proof -
  assume "text_after_in s = Some j"
  then obtain k where k: "in_at s k" and j: "j = takeWhile (\<lambda>c. c \<noteq> CHR '','') (drop (k + 3) s)"
    by (auto simp: text_after_in_def find_Some_iff)
  from k have "drop (k + 3) s \<noteq> []" "hd (drop (k + 3) s) \<noteq> CHR '',''"
    by (auto simp: in_at_def hd_drop_conv_nth)
  then show ?thesis using j by (cases "drop (k + 3) s") auto
qed

subsection \<open>The derived journal\<close>

text \<open>
  C4, as the code has it. The journal is the author text after its last hyphen, when a
  space follows that hyphen and some text follows the space (no space is required before
  the hyphen); else the text after its last comma, under the same conditions; else the
  text from the leftmost "in " that a character other than a comma follows, up to the
  next comma or the end (the two letters need not form a word); else the empty string.
  Surrounding white space is stripped from the result. The author text "J Smith - Nature"
  gives "Nature", and "J Smith, Cell Press" gives "Cell Press".
\<close>

theorem derive_journal_patterns:
  "derive_journal authors =
     (case tail_after CHR ''-'' authors of Some j \<Rightarrow> py_strip j
      | None \<Rightarrow> (case tail_after CHR '','' authors of Some j \<Rightarrow> py_strip j
         | None \<Rightarrow> (case text_after_in authors of Some j \<Rightarrow> py_strip j | None \<Rightarrow> '''')))
   \<and> derive_journal ''J Smith - Nature'' = ''Nature''
   \<and> derive_journal ''J Smith, Cell Press'' = ''Cell Press''"
proof (intro conjI)
  show "derive_journal authors =
     (case tail_after CHR ''-'' authors of Some j \<Rightarrow> py_strip j
      | None \<Rightarrow> (case tail_after CHR '','' authors of Some j \<Rightarrow> py_strip j
         | None \<Rightarrow> (case text_after_in authors of Some j \<Rightarrow> py_strip j | None \<Rightarrow> '''')))"
    by (auto simp: derive_journal_def search_after_dash search_after_comma search_after_in
        split: option.splits dest: tail_after_nonempty text_after_in_nonempty)
  show "derive_journal ''J Smith - Nature'' = ''Nature''"
    by code_simp
  show "derive_journal ''J Smith, Cell Press'' = ''Cell Press''"
    by code_simp
qed

text \<open>
  C4 as the specification words it fails where no space stands before the hyphen: in the
  author text "J Smith- Nature" neither " - " nor ", " nor "in " occurs, so none of the
  three patterns of the specification matches and the journal would be empty; the code
  gives "Nature".
\<close>

theorem derive_journal_no_leading_space:
  "derive_journal ''J Smith- Nature'' = ''Nature'' \<and>
   \<not> occurs_in '' - '' ''J Smith- Nature'' \<and>
   \<not> occurs_in '', '' ''J Smith- Nature'' \<and>
   \<not> occurs_in ''in '' ''J Smith- Nature''"
  by code_simp

end
